theory Spec2Isabelle
  imports Main "HOL-Library.Sublist"
begin

section \<open>Data model of the two store slices\<close>

text \<open>
  The repository is a Redux Toolkit store with two slices, \<open>blogSlice\<close> (the Post Cache)
  and \<open>commentsSlice\<close> (the Comment Cache). Each slice is a state object, a set of
  asynchronous operations (\<open>createAsyncThunk\<close>) that talk to the hosted backend, and a
  reducer that merges the outcome of an operation into the state.

  Field names follow the source; they carry a prefix where two interfaces of the source
  share a field name (\<open>id\<close>, \<open>content\<close>, \<open>status\<close>, \<open>error\<close>, ...). An optional or
  nullable field is an \<open>option\<close>.
\<close>

record Blog =
  b_id :: string
  b_title :: string
  b_content :: string
  b_user_id :: string
  b_email :: string
  b_image_path :: "string option"
  b_created_at :: string

record Comment =
  c_id :: string
  c_content :: string
  c_post_id :: string
  c_user_id :: string
  c_email :: string
  c_image_path :: "string option"
  c_created_at :: string
  c_updated_at :: string

datatype status = Idle | Loading | Succeeded | Failed

record BlogState =
  blogs :: "Blog list"
  blog_status :: status
  blog_error :: "string option"

text \<open>
  \<open>commentCounts\<close> is a \<open>Record<string, number>\<close>: a map from post ids to numbers. The
  keys are taken to be ordinary own properties (backend-assigned ids); the numbers are
  integers, since they are only ever counts, counts plus one and \<open>Math.max(0, count - 1)\<close>.
\<close>

record CommentState =
  comments :: "Comment list"
  commentCounts :: "string \<rightharpoonup> int"
  comment_status :: status
  comment_error :: "string option"

definition blogInitialState :: BlogState where
  "blogInitialState = \<lparr>blogs = [], blog_status = Idle, blog_error = None\<rparr>"

definition commentInitialState :: CommentState where
  "commentInitialState =
     \<lparr>comments = [], commentCounts = Map.empty, comment_status = Idle, comment_error = None\<rparr>"

subsection \<open>Actions\<close>

text \<open>
  Every thunk dispatches a \<open>pending\<close> action when it starts and then exactly one of
  \<open>fulfilled\<close> (with the value the payload creator returned) and \<open>rejected\<close> (with the
  value given to \<open>rejectWithValue\<close>; the payload is \<open>undefined\<close> when the payload creator
  threw instead). Payloads that the reducers test for truthiness are options.
\<close>

datatype 'a lifecycle = Pending | Fulfilled 'a | Rejected "string option"

datatype action =
    FetchBlogs "Blog list option lifecycle"
  | CreateBlog "Blog option lifecycle"
  | UpdateBlog "Blog option lifecycle"
  | DeleteBlog "string lifecycle"
  | FetchCommentsByPost "Comment list option lifecycle"
  | FetchCommentCounts "(string \<rightharpoonup> int) lifecycle"
  | CreateComment "Comment option lifecycle"
  | UpdateComment "Comment option lifecycle"
  | DeleteComment "string lifecycle"
  | ClearComments

subsection \<open>Array helpers of the host language\<close>

text \<open>
  \<open>Array.prototype.findIndex\<close>: the index of the first element that satisfies the
  predicate, \<open>-1\<close> when there is none. \<open>Array.prototype.find\<close> is \<^const>\<open>List.find\<close> and
  \<open>Array.prototype.filter\<close> is \<^const>\<open>filter\<close>.
\<close>

fun findIndex_from :: "('a \<Rightarrow> bool) \<Rightarrow> 'a list \<Rightarrow> int \<Rightarrow> int" where
  "findIndex_from P [] i = -1"
| "findIndex_from P (x # xs) i = (if P x then i else findIndex_from P xs (i + 1))"

definition findIndex :: "('a \<Rightarrow> bool) \<Rightarrow> 'a list \<Rightarrow> int" where
  "findIndex P xs = findIndex_from P xs 0"

text \<open>\<open>x || 0\<close> on an optional number: \<open>undefined\<close>, \<open>null\<close> and \<open>0\<close> are falsy.\<close>

fun or_zero :: "int option \<Rightarrow> int" where
  "or_zero None = 0"
| "or_zero (Some n) = (if n = 0 then 0 else n)"

text \<open>\<open>xs || []\<close> on an optional array: an array, also the empty one, is truthy.\<close>

fun or_empty :: "'a list option \<Rightarrow> 'a list" where
  "or_empty None = []"
| "or_empty (Some xs) = xs"

section \<open>The Post Cache reducer\<close>

text \<open>
  \<open>blogSlice\<close> has no reducers of its own and six \<open>extraReducers\<close> cases. An action
  without a case leaves the state as it is: that is the last equation.
\<close>

fun blogReducer :: "BlogState \<Rightarrow> action \<Rightarrow> BlogState" where
  "blogReducer state (FetchBlogs Pending) =
     state\<lparr>blog_status := Loading, blog_error := None\<rparr>"
| "blogReducer state (FetchBlogs (Fulfilled payload)) =
     state\<lparr>blog_status := Succeeded, blogs := or_empty payload\<rparr>"
| "blogReducer state (FetchBlogs (Rejected payload)) =
     state\<lparr>blog_status := Failed, blog_error := payload\<rparr>"
| "blogReducer state (CreateBlog (Fulfilled payload)) =
     (case payload of
        None \<Rightarrow> state
      | Some b \<Rightarrow> state\<lparr>blogs := b # blogs state\<rparr>)"
| "blogReducer state (UpdateBlog (Fulfilled payload)) =
     (case payload of
        None \<Rightarrow> state
      | Some b \<Rightarrow>
          (let idx = findIndex (\<lambda>x. b_id x = b_id b) (blogs state)
           in if idx \<noteq> -1 then state\<lparr>blogs := (blogs state)[nat idx := b]\<rparr> else state))"
| "blogReducer state (DeleteBlog (Fulfilled payload)) =
     state\<lparr>blogs := filter (\<lambda>b. b_id b \<noteq> payload) (blogs state)\<rparr>"
| "blogReducer state _ = state"

section \<open>The Comment Cache reducer\<close>

text \<open>
  \<open>commentsSlice\<close> has one reducer of its own, \<open>clearComments\<close>, and seven
  \<open>extraReducers\<close> cases.
\<close>

fun commentReducer :: "CommentState \<Rightarrow> action \<Rightarrow> CommentState" where
  "commentReducer state ClearComments =
     state\<lparr>comments := [], comment_status := Idle, comment_error := None\<rparr>"
| "commentReducer state (FetchCommentsByPost Pending) =
     state\<lparr>comment_status := Loading, comment_error := None\<rparr>"
| "commentReducer state (FetchCommentsByPost (Fulfilled payload)) =
     state\<lparr>comment_status := Succeeded, comments := or_empty payload\<rparr>"
| "commentReducer state (FetchCommentsByPost (Rejected payload)) =
     state\<lparr>comment_status := Failed, comment_error := payload\<rparr>"
| "commentReducer state (FetchCommentCounts (Fulfilled payload)) =
     state\<lparr>commentCounts := payload\<rparr>"
| "commentReducer state (CreateComment (Fulfilled payload)) =
     (case payload of
        None \<Rightarrow> state
      | Some c \<Rightarrow>
          (let postId = c_post_id c
           in state\<lparr>comments := c # comments state,
                    commentCounts := (commentCounts state)
                      (postId \<mapsto> or_zero (commentCounts state postId) + 1)\<rparr>))"
| "commentReducer state (UpdateComment (Fulfilled payload)) =
     (case payload of
        None \<Rightarrow> state
      | Some c \<Rightarrow>
          (let idx = findIndex (\<lambda>x. c_id x = c_id c) (comments state)
           in if idx \<noteq> -1 then state\<lparr>comments := (comments state)[nat idx := c]\<rparr>
              else state))"
| "commentReducer state (DeleteComment (Fulfilled payload)) =
     (let deletedComment = find (\<lambda>c. c_id c = payload) (comments state);
          state' = state\<lparr>comments := filter (\<lambda>c. c_id c \<noteq> payload) (comments state)\<rparr>
      in case deletedComment of
           None \<Rightarrow> state'
         | Some d \<Rightarrow>
             (let postId = c_post_id d
              in state'\<lparr>commentCounts := (commentCounts state')
                   (postId \<mapsto> max 0 (or_zero (commentCounts state' postId) - 1))\<rparr>))"
| "commentReducer state _ = state"

section \<open>The operations\<close>

text \<open>
  The hosted backend is outside the repository. One run of an operation sees it only
  through the answers to its requests, so the model takes these answers as a parameter:
  a record with one answer function per kind of request. A request whose result object
  carries an \<open>error\<close> answers \<open>Inl\<close> of the error's message, any other answers \<open>Inr\<close> of
  its \<open>data\<close> (which can be \<open>null\<close>). Every request is taken to answer in one of these
  two ways; a client call that throws instead is not modelled. An operation returns the
  requests it has issued, in order, and the action it dispatches at its end.

  The signed-in user comes from the \<open>auth\<close> slice, \<open>Date.now()\<close>,
  \<open>Math.random().toString(36).substring(7)\<close> and \<open>new Date().toISOString()\<close> from the
  host: they are parameters too, the three host values as the text they are rendered to.
\<close>

record User =
  u_id :: string
  u_email :: string

record File =
  file_name :: string

record BlogData =
  bd_title :: string
  bd_content :: string
  bd_user_id :: string
  bd_email :: string
  bd_image_path :: "string option"

record BlogPatch =
  bp_title :: string
  bp_content :: string
  bp_image_path :: "string option"

record CommentData =
  cd_content :: string
  cd_post_id :: string
  cd_user_id :: string
  cd_email :: string
  cd_image_path :: "string option"

record CommentPatch =
  cp_content :: string
  cp_image_path :: "string option"
  cp_updated_at :: string

datatype backend_call =
    StorageUpload string File
  | StorageRemove string
  | PostsSelect
  | PostsInsert BlogData
  | PostsUpdate string BlogPatch
  | PostsDelete string
  | CommentsSelect string
  | CommentsCount string
  | CommentsInsert CommentData
  | CommentsUpdate string CommentPatch
  | CommentsDelete string

record backend =
  storage_upload :: "string \<Rightarrow> File \<Rightarrow> string option"
  posts_select :: "string + Blog list option"
  posts_insert :: "BlogData \<Rightarrow> string + Blog option"
  posts_update :: "string \<Rightarrow> BlogPatch \<Rightarrow> string + Blog option"
  posts_delete :: "string \<Rightarrow> string option"
  comments_select :: "string \<Rightarrow> string + Comment list option"
  comments_count :: "string \<Rightarrow> string + int option"
  comments_insert :: "CommentData \<Rightarrow> string + Comment option"
  comments_update :: "string \<Rightarrow> CommentPatch \<Rightarrow> string + Comment option"
  comments_delete :: "string \<Rightarrow> string option"

type_synonym outcome = "backend_call list \<times> action"

text \<open>
  \<open>!user || !user.id\<close> holds without a user and for a user whose id is the empty text;
  the operations below test the two in this order.
\<close>

text \<open>
  The best-effort removal of a blob, \<open>if (path) await ... .remove([path]).catch(() => {})\<close>:
  the request is issued when the path is truthy (\<open>undefined\<close>, \<open>null\<close> and the empty text
  are falsy), and whatever it answers is dropped.
\<close>

fun remove_old :: "string option \<Rightarrow> backend_call list" where
  "remove_old None = []"
| "remove_old (Some p) = (if p \<noteq> [] then [StorageRemove p] else [])"

text \<open>\<open>file.name.split(".").pop()\<close>: what follows the last dot, the whole name without one.\<close>

definition file_ext :: "string \<Rightarrow> string" where
  "file_ext name = rev (takeWhile (\<lambda>c. c \<noteq> CHR ''.'') (rev name))"

definition blog_file_path :: "User \<Rightarrow> string \<Rightarrow> File \<Rightarrow> string" where
  "blog_file_path user now file = u_id user @ ''/'' @ now @ ''-'' @ file_name file"

definition comment_file_path :: "User \<Rightarrow> string \<Rightarrow> string \<Rightarrow> File \<Rightarrow> string" where
  "comment_file_path user now rnd file =
     u_id user @ ''/'' @ (now @ ''-'' @ rnd @ ''.'' @ file_ext (file_name file))"

subsection \<open>Operations of the Post Cache\<close>

definition fetchBlogs :: "backend \<Rightarrow> outcome" where
  "fetchBlogs be =
     (case posts_select be of
        Inl message \<Rightarrow> ([PostsSelect], FetchBlogs (Rejected (Some message)))
      | Inr data \<Rightarrow> ([PostsSelect], FetchBlogs (Fulfilled data)))"

text \<open>The second half of \<open>createBlog\<close>: the insert of the row, after the optional upload.\<close>

definition createBlog_insert ::
  "backend \<Rightarrow> User \<Rightarrow> string \<Rightarrow> string \<Rightarrow> backend_call list \<Rightarrow> string option \<Rightarrow> outcome" where
  "createBlog_insert be user title content issued image_path =
     (let blogData = \<lparr>bd_title = title, bd_content = content, bd_user_id = u_id user,
                       bd_email = u_email user, bd_image_path = image_path\<rparr>
      in case posts_insert be blogData of
           Inl message \<Rightarrow> (issued @ [PostsInsert blogData], CreateBlog (Rejected (Some message)))
         | Inr data \<Rightarrow> (issued @ [PostsInsert blogData], CreateBlog (Fulfilled data)))"

definition createBlog ::
  "backend \<Rightarrow> User option \<Rightarrow> string \<Rightarrow> string \<Rightarrow> string \<Rightarrow> File option \<Rightarrow> outcome" where
  "createBlog be user now title content file =
     (case user of
        None \<Rightarrow> ([], CreateBlog (Rejected (Some ''Not authenticated or user has no ID'')))
      | Some u \<Rightarrow>
          if u_id u = []
          then ([], CreateBlog (Rejected (Some ''Not authenticated or user has no ID'')))
          else
            (case file of
               None \<Rightarrow> createBlog_insert be u title content [] None
             | Some f \<Rightarrow>
                 (let image_path = blog_file_path u now f
                  in case storage_upload be image_path f of
                       Some message \<Rightarrow>
                         ([StorageUpload image_path f], CreateBlog (Rejected (Some message)))
                     | None \<Rightarrow>
                         createBlog_insert be u title content
                           [StorageUpload image_path f] (Some image_path))))"

text \<open>The last step of \<open>updateBlog\<close>: the update of the row.\<close>

definition updateBlog_row ::
  "backend \<Rightarrow> string \<Rightarrow> string \<Rightarrow> string \<Rightarrow> backend_call list \<Rightarrow> string option \<Rightarrow> outcome" where
  "updateBlog_row be ident title content issued newImagePath =
     (let patch = \<lparr>bp_title = title, bp_content = content, bp_image_path = newImagePath\<rparr>
      in case posts_update be ident patch of
           Inl message \<Rightarrow>
             (issued @ [PostsUpdate ident patch], UpdateBlog (Rejected (Some message)))
         | Inr data \<Rightarrow> (issued @ [PostsUpdate ident patch], UpdateBlog (Fulfilled data)))"

definition updateBlog ::
  "backend \<Rightarrow> User option \<Rightarrow> string \<Rightarrow> string \<Rightarrow> string \<Rightarrow> string \<Rightarrow> File option \<Rightarrow>
   string option \<Rightarrow> outcome" where
  "updateBlog be user now ident title content file oldImagePath =
     (case user of
        None \<Rightarrow> ([], UpdateBlog (Rejected (Some ''Not authenticated'')))
      | Some u \<Rightarrow>
          if u_id u = [] then ([], UpdateBlog (Rejected (Some ''Not authenticated'')))
          else
            (case file of
               None \<Rightarrow> updateBlog_row be ident title content [] oldImagePath
             | Some f \<Rightarrow>
                 (let filePath = blog_file_path u now f;
                      issued = remove_old oldImagePath @ [StorageUpload filePath f]
                  in case storage_upload be filePath f of
                       Some message \<Rightarrow> (issued, UpdateBlog (Rejected (Some message)))
                     | None \<Rightarrow>
                         updateBlog_row be ident title content issued (Some filePath))))"

definition deleteBlog :: "backend \<Rightarrow> string \<Rightarrow> outcome" where
  "deleteBlog be ident =
     (case posts_delete be ident of
        Some message \<Rightarrow> ([PostsDelete ident], DeleteBlog (Rejected (Some message)))
      | None \<Rightarrow> ([PostsDelete ident], DeleteBlog (Fulfilled ident)))"

subsection \<open>Operations of the Comment Cache\<close>

definition fetchCommentsByPost :: "backend \<Rightarrow> string \<Rightarrow> outcome" where
  "fetchCommentsByPost be postId =
     (case comments_select be postId of
        Inl message \<Rightarrow> ([CommentsSelect postId], FetchCommentsByPost (Rejected (Some message)))
      | Inr data \<Rightarrow> ([CommentsSelect postId], FetchCommentsByPost (Fulfilled data)))"



definition createComment_insert ::
  "backend \<Rightarrow> User \<Rightarrow> string \<Rightarrow> string \<Rightarrow> backend_call list \<Rightarrow> string option \<Rightarrow> outcome" where
  "createComment_insert be user postId content issued image_path =
     (let commentData = \<lparr>cd_content = content, cd_post_id = postId, cd_user_id = u_id user,
                          cd_email = u_email user, cd_image_path = image_path\<rparr>
      in case comments_insert be commentData of
           Inl message \<Rightarrow>
             (issued @ [CommentsInsert commentData], CreateComment (Rejected (Some message)))
         | Inr data \<Rightarrow> (issued @ [CommentsInsert commentData], CreateComment (Fulfilled data)))"

definition createComment ::
  "backend \<Rightarrow> User option \<Rightarrow> string \<Rightarrow> string \<Rightarrow> string \<Rightarrow> string \<Rightarrow> File option \<Rightarrow>
   outcome" where
  "createComment be user now rnd postId content file =
     (case user of
        None \<Rightarrow> ([], CreateComment (Rejected (Some ''Not authenticated'')))
      | Some u \<Rightarrow>
          if u_id u = [] then ([], CreateComment (Rejected (Some ''Not authenticated'')))
          else
            (case file of
               None \<Rightarrow> createComment_insert be u postId content [] None
             | Some f \<Rightarrow>
                 (let image_path = comment_file_path u now rnd f
                  in case storage_upload be image_path f of
                       Some message \<Rightarrow>
                         ([StorageUpload image_path f], CreateComment (Rejected (Some message)))
                     | None \<Rightarrow>
                         createComment_insert be u postId content
                           [StorageUpload image_path f] (Some image_path))))"

definition updateComment_row ::
  "backend \<Rightarrow> string \<Rightarrow> string \<Rightarrow> string \<Rightarrow> backend_call list \<Rightarrow> string option \<Rightarrow> outcome" where
  "updateComment_row be isoNow ident content issued newImagePath =
     (let patch = \<lparr>cp_content = content, cp_image_path = newImagePath, cp_updated_at = isoNow\<rparr>
      in case comments_update be ident patch of
           Inl message \<Rightarrow>
             (issued @ [CommentsUpdate ident patch], UpdateComment (Rejected (Some message)))
         | Inr data \<Rightarrow>
             (issued @ [CommentsUpdate ident patch], UpdateComment (Fulfilled data)))"

definition updateComment ::
  "backend \<Rightarrow> User option \<Rightarrow> string \<Rightarrow> string \<Rightarrow> string \<Rightarrow> string \<Rightarrow> string \<Rightarrow> File option \<Rightarrow>
   string option \<Rightarrow> bool \<Rightarrow> outcome" where
  "updateComment be user now rnd isoNow ident content file oldImagePath shouldRemoveImage =
     (case user of
        None \<Rightarrow> ([], UpdateComment (Rejected (Some ''Not authenticated'')))
      | Some u \<Rightarrow>
          if u_id u = [] then ([], UpdateComment (Rejected (Some ''Not authenticated'')))
          else if shouldRemoveImage
          then updateComment_row be isoNow ident content (remove_old oldImagePath) None
          else
            (case file of
               None \<Rightarrow> updateComment_row be isoNow ident content [] oldImagePath
             | Some f \<Rightarrow>
                 (let filePath = comment_file_path u now rnd f;
                      issued = remove_old oldImagePath @ [StorageUpload filePath f]
                  in case storage_upload be filePath f of
                       Some message \<Rightarrow> (issued, UpdateComment (Rejected (Some message)))
                     | None \<Rightarrow>
                         updateComment_row be isoNow ident content issued (Some filePath))))"

definition deleteComment :: "backend \<Rightarrow> string \<Rightarrow> string option \<Rightarrow> outcome" where
  "deleteComment be ident imagePath =
     (let issued = remove_old imagePath @ [CommentsDelete ident]
      in case comments_delete be ident of
           Some message \<Rightarrow> (issued, DeleteComment (Rejected (Some message)))
         | None \<Rightarrow> (issued, DeleteComment (Fulfilled ident)))"

section \<open>Notions used to state the properties\<close>

text \<open>
  The payload of the last \<open>fulfilled\<close> completion in a sequence of completions of one
  operation; \<open>None\<close> when no completion in the sequence is a \<open>fulfilled\<close> one.
\<close>

fun last_fulfilled :: "'a lifecycle list \<Rightarrow> 'a option" where
  "last_fulfilled [] = None"
| "last_fulfilled (l # ls) =
     (case last_fulfilled ls of
        Some payload \<Rightarrow> Some payload
      | None \<Rightarrow> (case l of Fulfilled payload \<Rightarrow> Some payload | _ \<Rightarrow> None))"





text \<open>
  Successful creates and deletes of comments, and a run of them that the count of post
  \<open>P\<close> follows step by step: every create is of a comment of \<open>P\<close>, and every delete finds
  its comment in the scoped collection at the moment it completes, as a comment of \<open>P\<close>,
  while the count of \<open>P\<close> is at least 1.
\<close>

fun is_create :: "action \<Rightarrow> bool" where
  "is_create (CreateComment (Fulfilled (Some c))) = True"
| "is_create _ = False"

fun is_delete :: "action \<Rightarrow> bool" where
  "is_delete (DeleteComment (Fulfilled i)) = True"
| "is_delete _ = False"

fun counted_step :: "string \<Rightarrow> CommentState \<Rightarrow> action \<Rightarrow> bool" where
  "counted_step P state (CreateComment (Fulfilled (Some c))) = (c_post_id c = P)"
| "counted_step P state (DeleteComment (Fulfilled i)) =
     (case find (\<lambda>c. c_id c = i) (comments state) of
        None \<Rightarrow> False
      | Some d \<Rightarrow> c_post_id d = P \<and> 1 \<le> or_zero (commentCounts state P))"
| "counted_step P state _ = False"

fun counted_run :: "string \<Rightarrow> CommentState \<Rightarrow> action list \<Rightarrow> bool" where
  "counted_run P state [] = True"
| "counted_run P state (a # as) =
     (counted_step P state a \<and> counted_run P (commentReducer state a) as)"

subsection \<open>Example data\<close>

definition ex_post :: "string \<Rightarrow> string \<Rightarrow> string \<Rightarrow> Blog" where
  "ex_post i title created =
     \<lparr>b_id = i, b_title = title, b_content = ''text'', b_user_id = ''u1'',
      b_email = ''ann@example.org'', b_image_path = None, b_created_at = created\<rparr>"

definition ex_comment :: "string \<Rightarrow> string \<Rightarrow> string \<Rightarrow> Comment" where
  "ex_comment i postId content =
     \<lparr>c_id = i, c_content = content, c_post_id = postId, c_user_id = ''u1'',
      c_email = ''ann@example.org'', c_image_path = Some ''u1/old.png'',
      c_created_at = ''2025-01-01'', c_updated_at = ''2025-01-01''\<rparr>"

definition ex_user :: User where
  "ex_user = \<lparr>u_id = ''u1'', u_email = ''ann@example.org''\<rparr>"

text \<open>
  A backend that refuses the upload of files named \<open>bad.png\<close> and the count query for
  the post \<open>gone\<close>, and accepts everything else, answering a write with the row written.
\<close>

definition ex_backend :: backend where
  "ex_backend =
     \<lparr>storage_upload = (\<lambda>path f. if file_name f = ''bad.png'' then Some ''upload failed'' else None),
      posts_select = Inr (Some []),
      posts_insert = (\<lambda>d. Inr (Some
        \<lparr>b_id = ''new'', b_title = bd_title d, b_content = bd_content d,
         b_user_id = bd_user_id d, b_email = bd_email d, b_image_path = bd_image_path d,
         b_created_at = ''2025-02-02''\<rparr>)),
      posts_update = (\<lambda>i p. Inr (Some
        \<lparr>b_id = i, b_title = bp_title p, b_content = bp_content p, b_user_id = ''u1'',
         b_email = ''ann@example.org'', b_image_path = bp_image_path p,
         b_created_at = ''2025-01-01''\<rparr>)),
      posts_delete = (\<lambda>i. None),
      comments_select = (\<lambda>p. Inr (Some [])),
      comments_count = (\<lambda>p. if p = ''gone'' then Inl ''count failed''
                             else Inr (Some (int (length p)))),
      comments_insert = (\<lambda>d. Inr (Some
        \<lparr>c_id = ''new'', c_content = cd_content d, c_post_id = cd_post_id d,
         c_user_id = cd_user_id d, c_email = cd_email d, c_image_path = cd_image_path d,
         c_created_at = ''2025-02-02'', c_updated_at = ''2025-02-02''\<rparr>)),
      comments_update = (\<lambda>i p. Inr (Some
        \<lparr>c_id = i, c_content = cp_content p, c_post_id = ''p1'', c_user_id = ''u1'',
         c_email = ''ann@example.org'', c_image_path = cp_image_path p,
         c_created_at = ''2025-01-01'', c_updated_at = cp_updated_at p\<rparr>)),
      comments_delete = (\<lambda>i. None)\<rparr>"

section \<open>Facts about the helpers\<close>

text \<open>
  \<open>findIndex\<close> answers \<open>-1\<close> exactly when no element satisfies the predicate, and
  otherwise the position of the first element that does.
\<close>

lemma findIndex_from_absent:
  "\<forall>x\<in>set xs. \<not> P x \<Longrightarrow> findIndex_from P xs i = -1"
  by (induction xs arbitrary: i) auto

lemma findIndex_from_present:
  "\<exists>x\<in>set xs. P x \<Longrightarrow>
   \<exists>k<length xs. findIndex_from P xs i = i + int k \<and> P (xs ! k) \<and> (\<forall>j<k. \<not> P (xs ! j))"
proof (induction xs arbitrary: i)
  case Nil
  then show ?case by simp
next
  case (Cons x xs)
  show ?case
  proof (cases "P x")
    case True
    then have "findIndex_from P (x # xs) i = i + int 0 \<and> P ((x # xs) ! 0)
        \<and> (\<forall>j<0. \<not> P ((x # xs) ! j))"
      by simp
    then show ?thesis by blast
  next
    case False
    with Cons.prems have "\<exists>y\<in>set xs. P y" by auto
    from Cons.IH [OF this, of "i + 1"] obtain k where k: "k < length xs"
      "findIndex_from P xs (i + 1) = i + 1 + int k" "P (xs ! k)" "\<forall>j<k. \<not> P (xs ! j)"
      by blast
    have "\<forall>j<Suc k. \<not> P ((x # xs) ! j)"
      using False k(4) by (auto simp: nth_Cons split: nat.splits)
    with False k have "Suc k < length (x # xs) \<and>
        findIndex_from P (x # xs) i = i + int (Suc k) \<and> P ((x # xs) ! Suc k)
        \<and> (\<forall>j<Suc k. \<not> P ((x # xs) ! j))"
      by simp
    then show ?thesis by blast
  qed
qed

lemma findIndex_absent: "\<forall>x\<in>set xs. \<not> P x \<Longrightarrow> findIndex P xs = -1"
  by (simp add: findIndex_def findIndex_from_absent)

lemma findIndex_present:
  "\<exists>x\<in>set xs. P x \<Longrightarrow>
   \<exists>k<length xs. findIndex P xs = int k \<and> P (xs ! k) \<and> (\<forall>j<k. \<not> P (xs ! j))"
  using findIndex_from_present [of xs P 0] by (simp add: findIndex_def)

text \<open>
  Where the keys of a list are pairwise distinct, filtering one key out removes one
  element and keeps the others in place.
\<close>

lemma filter_out_unique:
  "distinct (map f xs) \<Longrightarrow> x \<in> set xs \<Longrightarrow>
   \<exists>ys zs. xs = ys @ x # zs \<and> filter (\<lambda>y. f y \<noteq> f x) xs = ys @ zs"
proof -
  assume d: "distinct (map f xs)" and x: "x \<in> set xs"
  from x obtain ys zs where xs: "xs = ys @ x # zs"
    by (auto simp: in_set_conv_decomp)
  from d xs have "f x \<notin> f ` set ys" "f x \<notin> f ` set zs"
    by auto
  then have "\<forall>y\<in>set ys. f y \<noteq> f x" "\<forall>z\<in>set zs. f z \<noteq> f x"
    by (metis imageI)+
  then have "filter (\<lambda>y. f y \<noteq> f x) xs = ys @ zs"
    by (simp add: xs)
  with xs show ?thesis by blast
qed

text \<open>
  The best-effort removal never uploads.
\<close>

lemma remove_old_no_upload: "StorageUpload path g \<notin> set (remove_old old)"
  by (cases old) simp_all



text \<open>
  One counted step moves the count of the post by one, up for a create and down for a
  delete, and so does a counted run, step after step.
\<close>

lemma counted_step_count:
  assumes "counted_step P state a" "commentCounts state P = Some c" "0 \<le> c"
  shows "commentCounts (commentReducer state a) P =
           Some (c + (if is_create a then 1 else 0) - (if is_delete a then 1 else 0))
         \<and> 0 \<le> c + (if is_create a then 1 else 0) - (if is_delete a then 1 else 0)"
proof (cases a)
  case (CreateComment l)
  with assms show ?thesis
    by (cases l; cases "case l of Fulfilled p \<Rightarrow> p | _ \<Rightarrow> None") (auto simp: Let_def)
next
  case (DeleteComment l)
  with assms show ?thesis
    by (cases l) (auto simp: Let_def split: option.splits)
qed (use assms in auto)

lemma counted_run_count:
  "counted_run P state as \<Longrightarrow> commentCounts state P = Some c \<Longrightarrow> 0 \<le> c \<Longrightarrow>
   commentCounts (foldl commentReducer state as) P =
     Some (c + int (length (filter is_create as)) - int (length (filter is_delete as)))
   \<and> 0 \<le> c + int (length (filter is_create as)) - int (length (filter is_delete as))"
proof (induction as arbitrary: state c)
  case Nil
  then show ?case by simp
next
  case (Cons a as)
  from Cons.prems have step: "counted_step P state a"
    and run: "counted_run P (commentReducer state a) as"
    by simp_all
  let ?c = "c + (if is_create a then 1 else 0) - (if is_delete a then 1 else 0)"
  from counted_step_count [OF step Cons.prems(2,3)]
  have c': "commentCounts (commentReducer state a) P = Some ?c" "0 \<le> ?c"
    by simp_all
  from Cons.IH [OF run c'] show ?case
    by (cases "is_create a"; cases "is_delete a") simp_all
qed

text \<open>
  The collection after a sequence of completions of \<open>fetchBlogs\<close>.
\<close>

lemma blogs_fetch_sequence:
  "blogs (foldl blogReducer state (map FetchBlogs ls)) =
     (case last_fulfilled ls of None \<Rightarrow> blogs state | Some payload \<Rightarrow> or_empty payload)"
proof (induction ls arbitrary: state)
  case Nil
  show ?case by simp
next
  case (Cons l ls)
  show ?case
    by (cases l) (simp_all add: Cons.IH split: option.splits)
qed

section \<open>Properties of the Post Cache\<close>

text \<open>
  C2. After any sequence of completions of \<open>fetchBlogs\<close> (pending, fulfilled and
  rejected ones, in any order), the collection is the result of the last fulfilled one,
  the empty list where that result is \<open>null\<close>, and the collection of the start when
  none was fulfilled. A fulfilled completion replaces the collection wholesale and sets
  the status to \<open>succeeded\<close>; a rejected one sets the status to \<open>failed\<close> and the error
  to the message, and leaves the collection as it is. The operation is fulfilled with the
  rows the backend answers and rejected with the message of the error it answers.
\<close>

theorem fetchBlogs_last_success_wins:
  "blogs (foldl blogReducer state (map FetchBlogs ls)) =
     (case last_fulfilled ls of None \<Rightarrow> blogs state | Some payload \<Rightarrow> or_empty payload)
   \<and> blogReducer state (FetchBlogs (Fulfilled data)) =
       state\<lparr>blog_status := Succeeded, blogs := or_empty data\<rparr>
   \<and> blogReducer state (FetchBlogs (Rejected m)) =
       state\<lparr>blog_status := Failed, blog_error := m\<rparr>
   \<and> blogs (blogReducer state (FetchBlogs (Rejected m))) = blogs state
   \<and> (posts_select be = Inr data \<longrightarrow> snd (fetchBlogs be) = FetchBlogs (Fulfilled data))
   \<and> (posts_select be = Inl message \<longrightarrow>
        snd (fetchBlogs be) = FetchBlogs (Rejected (Some message)))"
  by (simp add: blogs_fetch_sequence fetchBlogs_def)

text \<open>
  An instance: two successful fetches with failed ones in between and after.
\<close>

theorem fetchBlogs_last_success_wins_witness:
  "blogs (foldl blogReducer blogInitialState (map FetchBlogs
      [Fulfilled (Some [ex_post ''1'' ''first'' ''2025-01-01'']),
       Rejected (Some ''network down''),
       Pending,
       Fulfilled (Some [ex_post ''2'' ''second'' ''2025-01-02'',
                        ex_post ''1'' ''first'' ''2025-01-01'']),
       Rejected (Some ''network down'')])) =
     [ex_post ''2'' ''second'' ''2025-01-02'', ex_post ''1'' ''first'' ''2025-01-01'']
   \<and> posts_select ex_backend = Inr (Some [])
   \<and> snd (fetchBlogs ex_backend) = FetchBlogs (Fulfilled (Some []))"
  using fetchBlogs_last_success_wins [of blogInitialState
      "[Fulfilled (Some [ex_post ''1'' ''first'' ''2025-01-01'']),
        Rejected (Some ''network down''),
        Pending,
        Fulfilled (Some [ex_post ''2'' ''second'' ''2025-01-02'',
                         ex_post ''1'' ''first'' ''2025-01-01'']),
        Rejected (Some ''network down'')]" "Some []" None ex_backend "''x''"]
  by (simp add: ex_backend_def)

text \<open>
  C3. For every Post Cache state and every successfully created post, the fulfilled
  transition of \<open>createBlog\<close> puts the new post at index 0 of the collection, whatever its
  \<open>created_at\<close> is, and keeps all former entries, in their former order, behind it. Status
  and error are not touched.
\<close>

theorem createBlog_fulfilled_prepends:
  "blogs (blogReducer state (CreateBlog (Fulfilled (Some b)))) = b # blogs state
   \<and> blogs (blogReducer state (CreateBlog (Fulfilled (Some b)))) ! 0 = b
   \<and> tl (blogs (blogReducer state (CreateBlog (Fulfilled (Some b))))) = blogs state
   \<and> blog_status (blogReducer state (CreateBlog (Fulfilled (Some b)))) = blog_status state
   \<and> blog_error (blogReducer state (CreateBlog (Fulfilled (Some b)))) = blog_error state"
  by simp

text \<open>
  An instance: the new post is older than the one in the collection and still comes first.
\<close>

theorem createBlog_fulfilled_prepends_witness:
  "blogs (blogReducer
      \<lparr>blogs = [ex_post ''1'' ''first'' ''2025-06-01''], blog_status = Succeeded,
       blog_error = None\<rparr>
      (CreateBlog (Fulfilled (Some (ex_post ''2'' ''older'' ''2024-01-01''))))) =
     [ex_post ''2'' ''older'' ''2024-01-01'', ex_post ''1'' ''first'' ''2025-06-01'']"
  using createBlog_fulfilled_prepends
    [of "\<lparr>blogs = [ex_post ''1'' ''first'' ''2025-06-01''], blog_status = Succeeded,
          blog_error = None\<rparr>" "ex_post ''2'' ''older'' ''2024-01-01''"]
  by simp

text \<open>
  C4. When no entry of the collection has the id of the updated post, the fulfilled
  transition of \<open>updateBlog\<close> leaves the whole state as it is. When an entry has it, the
  first such entry is replaced in place, at its index, and nothing else changes; the
  length of the collection is the same in both cases. The operation itself does not read
  the collection: for a signed-in user and a backend that accepts the update, it is
  fulfilled also when the collection lacks the id.
\<close>

theorem updateBlog_fulfilled_in_place:
  "((\<forall>x\<in>set (blogs state). b_id x \<noteq> b_id b) \<longrightarrow>
      blogReducer state (UpdateBlog (Fulfilled (Some b))) = state)
   \<and> ((\<exists>x\<in>set (blogs state). b_id x = b_id b) \<longrightarrow>
      (\<exists>i<length (blogs state).
         b_id (blogs state ! i) = b_id b \<and> (\<forall>j<i. b_id (blogs state ! j) \<noteq> b_id b)
         \<and> blogReducer state (UpdateBlog (Fulfilled (Some b))) =
             state\<lparr>blogs := (blogs state)[i := b]\<rparr>))
   \<and> length (blogs (blogReducer state (UpdateBlog (Fulfilled (Some b))))) = length (blogs state)
   \<and> (u_id u \<noteq> [] \<longrightarrow>
        posts_update be (b_id b)
          \<lparr>bp_title = title, bp_content = content, bp_image_path = old\<rparr> = Inr (Some b) \<longrightarrow>
        (\<forall>x\<in>set (blogs state). b_id x \<noteq> b_id b) \<longrightarrow>
        snd (updateBlog be (Some u) now (b_id b) title content None old) =
          UpdateBlog (Fulfilled (Some b))
        \<and> blogReducer state (snd (updateBlog be (Some u) now (b_id b) title content None old)) =
            state)"
proof (intro conjI impI)
  assume "\<forall>x\<in>set (blogs state). b_id x \<noteq> b_id b"
  then have "findIndex (\<lambda>x. b_id x = b_id b) (blogs state) = -1"
    by (intro findIndex_absent) simp
  then show "blogReducer state (UpdateBlog (Fulfilled (Some b))) = state"
    by simp
next
  assume "\<exists>x\<in>set (blogs state). b_id x = b_id b"
  from findIndex_present [of "blogs state" "\<lambda>x. b_id x = b_id b", OF this]
  obtain k where k: "k < length (blogs state)"
    "findIndex (\<lambda>x. b_id x = b_id b) (blogs state) = int k"
    "b_id (blogs state ! k) = b_id b" "\<forall>j<k. b_id (blogs state ! j) \<noteq> b_id b"
    by blast
  from k(2) have "blogReducer state (UpdateBlog (Fulfilled (Some b))) =
      state\<lparr>blogs := (blogs state)[k := b]\<rparr>"
    by simp
  with k show "\<exists>i<length (blogs state).
         b_id (blogs state ! i) = b_id b \<and> (\<forall>j<i. b_id (blogs state ! j) \<noteq> b_id b)
         \<and> blogReducer state (UpdateBlog (Fulfilled (Some b))) =
             state\<lparr>blogs := (blogs state)[i := b]\<rparr>"
    by blast
next
  show "length (blogs (blogReducer state (UpdateBlog (Fulfilled (Some b))))) = length (blogs state)"
    by (simp add: Let_def)
next
  assume user: "u_id u \<noteq> []"
    and accepted: "posts_update be (b_id b)
      \<lparr>bp_title = title, bp_content = content, bp_image_path = old\<rparr> = Inr (Some b)"
    and absent: "\<forall>x\<in>set (blogs state). b_id x \<noteq> b_id b"
  from user accepted
  show act: "snd (updateBlog be (Some u) now (b_id b) title content None old) =
      UpdateBlog (Fulfilled (Some b))"
    by (simp add: updateBlog_def updateBlog_row_def Let_def)
  from absent have "findIndex (\<lambda>x. b_id x = b_id b) (blogs state) = -1"
    by (intro findIndex_absent) simp
  then show "blogReducer state (snd (updateBlog be (Some u) now (b_id b) title content None old)) =
      state"
    by (simp add: act)
qed

text \<open>
  An instance of both cases: an id that is absent, and an id that is present.
\<close>

theorem updateBlog_fulfilled_in_place_witness:
  "blogReducer
      \<lparr>blogs = [ex_post ''1'' ''first'' ''2025-01-01''], blog_status = Succeeded,
       blog_error = None\<rparr>
      (UpdateBlog (Fulfilled (Some (ex_post ''7'' ''edited'' ''2025-01-01'')))) =
     \<lparr>blogs = [ex_post ''1'' ''first'' ''2025-01-01''], blog_status = Succeeded,
      blog_error = None\<rparr>
   \<and> blogs (blogReducer
      \<lparr>blogs = [ex_post ''2'' ''second'' ''2025-01-02'', ex_post ''1'' ''first'' ''2025-01-01''],
       blog_status = Succeeded, blog_error = None\<rparr>
      (UpdateBlog (Fulfilled (Some (ex_post ''1'' ''edited'' ''2025-01-01''))))) =
     [ex_post ''2'' ''second'' ''2025-01-02'', ex_post ''1'' ''edited'' ''2025-01-01'']"
  using updateBlog_fulfilled_in_place
    [of "\<lparr>blogs = [ex_post ''1'' ''first'' ''2025-01-01''], blog_status = Succeeded,
          blog_error = None\<rparr>" "ex_post ''7'' ''edited'' ''2025-01-01''"
        ex_user ex_backend "''edited''" "''text''" None "''1700000000000''"]
    updateBlog_fulfilled_in_place
    [of "\<lparr>blogs = [ex_post ''2'' ''second'' ''2025-01-02'',
                   ex_post ''1'' ''first'' ''2025-01-01''],
          blog_status = Succeeded, blog_error = None\<rparr>" "ex_post ''1'' ''edited'' ''2025-01-01''"
        ex_user ex_backend "''edited''" "''text''" None "''1700000000000''"]
  by (auto simp: ex_post_def less_Suc_eq)

text \<open>
  C5, as amended. The fulfilled transition of \<open>deleteBlog\<close> removes every entry whose
  id equals the given one and keeps exactly the others, in their order: the length drops
  by the number of entries with that id. It removes nothing when no entry has the id, and
  exactly one element, the matching one, where the collection holds one post per id. An
  entry whose id is another text stays, in particular one whose id only starts with the
  given id.
\<close>

theorem deleteBlog_fulfilled_removes_match:
  "blogs (blogReducer state (DeleteBlog (Fulfilled i))) =
     filter (\<lambda>b. b_id b \<noteq> i) (blogs state)
   \<and> ((\<forall>x\<in>set (blogs state). b_id x \<noteq> i) \<longrightarrow>
        blogReducer state (DeleteBlog (Fulfilled i)) = state)
   \<and> (distinct (map b_id (blogs state)) \<longrightarrow> (\<exists>x\<in>set (blogs state). b_id x = i) \<longrightarrow>
        (\<exists>ys x zs. blogs state = ys @ x # zs \<and> b_id x = i
           \<and> blogs (blogReducer state (DeleteBlog (Fulfilled i))) = ys @ zs))
   \<and> length (blogs state) =
       length (blogs (blogReducer state (DeleteBlog (Fulfilled i))))
       + length (filter (\<lambda>b. b_id b = i) (blogs state))
   \<and> (\<forall>x\<in>set (blogs state). b_id x \<noteq> i \<longrightarrow>
        x \<in> set (blogs (blogReducer state (DeleteBlog (Fulfilled i)))))
   \<and> (\<forall>x\<in>set (blogs state). strict_prefix i (b_id x) \<longrightarrow>
        x \<in> set (blogs (blogReducer state (DeleteBlog (Fulfilled i)))))"
proof (intro conjI impI)
  show "blogs (blogReducer state (DeleteBlog (Fulfilled i))) =
     filter (\<lambda>b. b_id b \<noteq> i) (blogs state)"
    by simp
next
  assume "\<forall>x\<in>set (blogs state). b_id x \<noteq> i"
  then have "filter (\<lambda>b. b_id b \<noteq> i) (blogs state) = blogs state"
    by (simp add: filter_id_conv)
  then show "blogReducer state (DeleteBlog (Fulfilled i)) = state"
    by simp
next
  assume d: "distinct (map b_id (blogs state))" and "\<exists>x\<in>set (blogs state). b_id x = i"
  then obtain x where x: "x \<in> set (blogs state)" "b_id x = i" by blast
  from filter_out_unique [OF d x(1)] x(2)
  show "\<exists>ys x zs. blogs state = ys @ x # zs \<and> b_id x = i
           \<and> blogs (blogReducer state (DeleteBlog (Fulfilled i))) = ys @ zs"
    by auto
next
  have "length (blogs state) =
      length (filter (\<lambda>b. b_id b \<noteq> i) (blogs state))
      + length (filter (\<lambda>b. \<not> b_id b \<noteq> i) (blogs state))"
    using sum_length_filter_compl [of "\<lambda>b. b_id b \<noteq> i" "blogs state"] by simp
  then show "length (blogs state) =
       length (blogs (blogReducer state (DeleteBlog (Fulfilled i))))
       + length (filter (\<lambda>b. b_id b = i) (blogs state))"
    by simp
next
  show "\<forall>x\<in>set (blogs state). b_id x \<noteq> i \<longrightarrow>
        x \<in> set (blogs (blogReducer state (DeleteBlog (Fulfilled i))))"
    by simp
next
  show "\<forall>x\<in>set (blogs state). strict_prefix i (b_id x) \<longrightarrow>
        x \<in> set (blogs (blogReducer state (DeleteBlog (Fulfilled i))))"
    by (auto simp: strict_prefix_def)
qed

text \<open>
  An instance: deleting \<open>1\<close> keeps \<open>12\<close> and \<open>123\<close>; deleting \<open>9\<close> removes nothing.
\<close>

theorem deleteBlog_fulfilled_removes_match_witness:
  "distinct (map b_id [ex_post ''12'' ''a'' ''2025-01-03'', ex_post ''1'' ''b'' ''2025-01-02'',
                      ex_post ''123'' ''c'' ''2025-01-01''])
   \<and> strict_prefix ''1'' (b_id (ex_post ''12'' ''a'' ''2025-01-03''))
   \<and> blogs (blogReducer
      \<lparr>blogs = [ex_post ''12'' ''a'' ''2025-01-03'', ex_post ''1'' ''b'' ''2025-01-02'',
                ex_post ''123'' ''c'' ''2025-01-01''],
       blog_status = Succeeded, blog_error = None\<rparr>
      (DeleteBlog (Fulfilled ''1''))) =
     [ex_post ''12'' ''a'' ''2025-01-03'', ex_post ''123'' ''c'' ''2025-01-01'']
   \<and> blogs (blogReducer
      \<lparr>blogs = [ex_post ''12'' ''a'' ''2025-01-03'', ex_post ''1'' ''b'' ''2025-01-02'',
                ex_post ''123'' ''c'' ''2025-01-01''],
       blog_status = Succeeded, blog_error = None\<rparr>
      (DeleteBlog (Fulfilled ''9''))) =
     [ex_post ''12'' ''a'' ''2025-01-03'', ex_post ''1'' ''b'' ''2025-01-02'',
      ex_post ''123'' ''c'' ''2025-01-01'']"
  using deleteBlog_fulfilled_removes_match
    [of "\<lparr>blogs = [ex_post ''12'' ''a'' ''2025-01-03'', ex_post ''1'' ''b'' ''2025-01-02'',
                   ex_post ''123'' ''c'' ''2025-01-01''],
          blog_status = Succeeded, blog_error = None\<rparr>" "''1''"]
    deleteBlog_fulfilled_removes_match
    [of "\<lparr>blogs = [ex_post ''12'' ''a'' ''2025-01-03'', ex_post ''1'' ''b'' ''2025-01-02'',
                   ex_post ''123'' ''c'' ''2025-01-01''],
          blog_status = Succeeded, blog_error = None\<rparr>" "''9''"]
  by (simp add: ex_post_def)

text \<open>
  The transition does not remove exactly one element in every state the reducer reaches.
  A fetch that already returns a freshly inserted row, completed before the create that
  inserted it, leaves the row in the collection twice (the create unshifts without a
  check), and the delete of its id then removes both entries.
\<close>

theorem deleteBlog_exactly_one_counterexample:
  "blogs (foldl blogReducer blogInitialState
      [FetchBlogs (Fulfilled (Some [ex_post ''1'' ''first'' ''2025-01-01''])),
       CreateBlog (Fulfilled (Some (ex_post ''1'' ''first'' ''2025-01-01'')))]) =
     [ex_post ''1'' ''first'' ''2025-01-01'', ex_post ''1'' ''first'' ''2025-01-01'']
   \<and> blogs (blogReducer
        (foldl blogReducer blogInitialState
           [FetchBlogs (Fulfilled (Some [ex_post ''1'' ''first'' ''2025-01-01''])),
            CreateBlog (Fulfilled (Some (ex_post ''1'' ''first'' ''2025-01-01'')))])
        (DeleteBlog (Fulfilled ''1''))) = []
   \<and> length (blogs (blogReducer
        (foldl blogReducer blogInitialState
           [FetchBlogs (Fulfilled (Some [ex_post ''1'' ''first'' ''2025-01-01''])),
            CreateBlog (Fulfilled (Some (ex_post ''1'' ''first'' ''2025-01-01'')))])
        (DeleteBlog (Fulfilled ''1'')))) + 1
     \<noteq> length (blogs (foldl blogReducer blogInitialState
           [FetchBlogs (Fulfilled (Some [ex_post ''1'' ''first'' ''2025-01-01''])),
            CreateBlog (Fulfilled (Some (ex_post ''1'' ''first'' ''2025-01-01'')))]))"
  by (simp add: blogInitialState_def ex_post_def)

section \<open>Properties of the Comment Cache\<close>

text \<open>
  C1, as amended. Let the count of post \<open>P\<close> be \<open>c0 \<ge> 0\<close>, and take a run of
  successful creates of comments of \<open>P\<close> and of successful deletes each of which finds its
  comment in the scoped collection when it completes, as a comment of \<open>P\<close>, at a count of
  at least 1. After \<open>n\<close> such creates and \<open>m\<close> such deletes the count of \<open>P\<close> is
  \<open>max 0 (c0 + n - m)\<close>. A single successful create sets the count of the comment's post to
  the former count (0 when absent) plus 1; a single successful delete that finds its comment
  sets the count of that comment's post to the former count minus 1, floored at 0; the
  counts of all other posts stay as they are.
\<close>

theorem commentCounts_follow_creates_and_deletes:
  assumes "commentCounts state P = Some c0" and "0 \<le> c0" and "counted_run P state as"
  shows "commentCounts (foldl commentReducer state as) P =
           Some (max 0 (c0 + int (length (filter is_create as))
                           - int (length (filter is_delete as))))
         \<and> commentCounts (commentReducer s (CreateComment (Fulfilled (Some c)))) (c_post_id c) =
             Some (or_zero (commentCounts s (c_post_id c)) + 1)
         \<and> (find (\<lambda>x. c_id x = i) (comments s) = Some d \<longrightarrow>
              commentCounts (commentReducer s (DeleteComment (Fulfilled i))) (c_post_id d) =
                Some (max 0 (or_zero (commentCounts s (c_post_id d)) - 1)))
         \<and> (q \<noteq> c_post_id c \<longrightarrow>
              commentCounts (commentReducer s (CreateComment (Fulfilled (Some c)))) q =
                commentCounts s q)
         \<and> (find (\<lambda>x. c_id x = i) (comments s) = Some d \<longrightarrow> q \<noteq> c_post_id d \<longrightarrow>
              commentCounts (commentReducer s (DeleteComment (Fulfilled i))) q =
                commentCounts s q)"
proof -
  from counted_run_count [OF assms(3,1,2)]
  have "commentCounts (foldl commentReducer state as) P =
           Some (max 0 (c0 + int (length (filter is_create as))
                           - int (length (filter is_delete as))))"
    by simp
  then show ?thesis by (simp add: Let_def)
qed

text \<open>
  An instance: from a count of 2, one create and two deletes of cached comments give 1.
\<close>

theorem commentCounts_follow_creates_and_deletes_witness:
  "counted_run ''p1''
     \<lparr>comments = [ex_comment ''c1'' ''p1'' ''hello''], commentCounts = [''p1'' \<mapsto> 2],
      comment_status = Succeeded, comment_error = None\<rparr>
     [CreateComment (Fulfilled (Some (ex_comment ''c2'' ''p1'' ''hi''))),
      DeleteComment (Fulfilled ''c1''),
      DeleteComment (Fulfilled ''c2'')]
   \<and> commentCounts
     (foldl commentReducer
        \<lparr>comments = [ex_comment ''c1'' ''p1'' ''hello''], commentCounts = [''p1'' \<mapsto> 2],
         comment_status = Succeeded, comment_error = None\<rparr>
        [CreateComment (Fulfilled (Some (ex_comment ''c2'' ''p1'' ''hi''))),
         DeleteComment (Fulfilled ''c1''),
         DeleteComment (Fulfilled ''c2'')]) ''p1'' = Some 1"
proof -
  let ?state = "\<lparr>comments = [ex_comment ''c1'' ''p1'' ''hello''],
      commentCounts = [''p1'' \<mapsto> 2], comment_status = Succeeded, comment_error = None\<rparr>"
  let ?run = "[CreateComment (Fulfilled (Some (ex_comment ''c2'' ''p1'' ''hi''))),
      DeleteComment (Fulfilled ''c1''), DeleteComment (Fulfilled ''c2'')]"
  have baseline: "commentCounts ?state ''p1'' = Some 2"
    by simp
  have nonneg: "(0::int) \<le> 2"
    by simp
  have run: "counted_run ''p1'' ?state ?run"
    by (simp add: ex_comment_def Let_def)
  from commentCounts_follow_creates_and_deletes
    [of ?state "''p1''" 2 ?run commentInitialState "ex_comment ''c2'' ''p1'' ''hi''" "''c1''"
        "ex_comment ''c1'' ''p1'' ''hello''" "''p2''", OF baseline nonneg run]
  have "commentCounts (foldl commentReducer ?state ?run) ''p1'' = Some 1"
    by (simp add: ex_comment_def Let_def)
  with run show ?thesis by blast
qed

text \<open>
  The formula \<open>max 0 (c0 + n - m)\<close> does not hold for every run. A delete at count 0
  is floored, so a create after it gives 1 where the formula gives 0; and a delete whose
  comment is not in the scoped collection leaves the count as it is.
\<close>

theorem commentCounts_formula_counterexample:
  "commentCounts
     \<lparr>comments = [ex_comment ''c1'' ''p1'' ''hello''], commentCounts = [''p1'' \<mapsto> 0],
      comment_status = Succeeded, comment_error = None\<rparr> ''p1'' = Some 0
   \<and> commentCounts
     (foldl commentReducer
        \<lparr>comments = [ex_comment ''c1'' ''p1'' ''hello''], commentCounts = [''p1'' \<mapsto> 0],
         comment_status = Succeeded, comment_error = None\<rparr>
        [DeleteComment (Fulfilled ''c1''),
         CreateComment (Fulfilled (Some (ex_comment ''c2'' ''p1'' ''hi'')))]) ''p1'' = Some 1
   \<and> commentCounts
     (foldl commentReducer
        \<lparr>comments = [ex_comment ''c1'' ''p1'' ''hello''], commentCounts = [''p1'' \<mapsto> 0],
         comment_status = Succeeded, comment_error = None\<rparr>
        [DeleteComment (Fulfilled ''c1''),
         CreateComment (Fulfilled (Some (ex_comment ''c2'' ''p1'' ''hi'')))]) ''p1''
     \<noteq> Some (max 0 (0 + 1 - 1))
   \<and> commentCounts
     (foldl commentReducer
        \<lparr>comments = [], commentCounts = [''p1'' \<mapsto> 2],
         comment_status = Succeeded, comment_error = None\<rparr>
        [CreateComment (Fulfilled (Some (ex_comment ''c2'' ''p1'' ''hi''))),
         DeleteComment (Fulfilled ''c9'')]) ''p1''
     \<noteq> Some (max 0 (2 + 1 - 1))"
  by (simp add: ex_comment_def Let_def)

text \<open>
  C10. A successful delete whose id is not in the scoped collection leaves the whole
  state as it is: nothing is removed and no count changes. When the id is found, the
  count of the found comment's post is decremented, floored at 0. So a count changes only
  if the deleted comment was in the scoped collection when the deletion completed.
\<close>

theorem deleteComment_fulfilled_only_counts_found:
  "((\<forall>c\<in>set (comments state). c_id c \<noteq> i) \<longrightarrow>
      commentReducer state (DeleteComment (Fulfilled i)) = state)
   \<and> (find (\<lambda>c. c_id c = i) (comments state) = Some d \<longrightarrow>
        commentCounts (commentReducer state (DeleteComment (Fulfilled i))) =
          (commentCounts state)
            (c_post_id d \<mapsto> max 0 (or_zero (commentCounts state (c_post_id d)) - 1)))
   \<and> (commentCounts (commentReducer state (DeleteComment (Fulfilled i))) \<noteq> commentCounts state
        \<longrightarrow> (\<exists>c\<in>set (comments state). c_id c = i))"
proof -
  have absent: "commentReducer state (DeleteComment (Fulfilled i)) = state"
    if "\<forall>c\<in>set (comments state). c_id c \<noteq> i"
  proof -
    from that have "find (\<lambda>c. c_id c = i) (comments state) = None"
      by (simp add: find_None_iff)
    moreover from that have "filter (\<lambda>c. c_id c \<noteq> i) (comments state) = comments state"
      by (simp add: filter_id_conv)
    ultimately show ?thesis by simp
  qed
  have found: "commentCounts (commentReducer state (DeleteComment (Fulfilled i))) =
      (commentCounts state)
        (c_post_id d \<mapsto> max 0 (or_zero (commentCounts state (c_post_id d)) - 1))"
    if "find (\<lambda>c. c_id c = i) (comments state) = Some d"
    using that by (simp add: Let_def)
  from absent found show ?thesis by metis
qed

text \<open>
  An instance: deleting an unknown id changes nothing; deleting a cached comment takes
  the count of its post from 2 to 1.
\<close>

theorem deleteComment_fulfilled_only_counts_found_witness:
  "commentReducer
      \<lparr>comments = [ex_comment ''c1'' ''p1'' ''hello''], commentCounts = [''p1'' \<mapsto> 2, ''p2'' \<mapsto> 5],
       comment_status = Succeeded, comment_error = None\<rparr>
      (DeleteComment (Fulfilled ''c9'')) =
     \<lparr>comments = [ex_comment ''c1'' ''p1'' ''hello''], commentCounts = [''p1'' \<mapsto> 2, ''p2'' \<mapsto> 5],
      comment_status = Succeeded, comment_error = None\<rparr>
   \<and> commentCounts (commentReducer
      \<lparr>comments = [ex_comment ''c1'' ''p1'' ''hello''], commentCounts = [''p1'' \<mapsto> 2, ''p2'' \<mapsto> 5],
       comment_status = Succeeded, comment_error = None\<rparr>
      (DeleteComment (Fulfilled ''c1''))) ''p1'' = Some 1"
  using deleteComment_fulfilled_only_counts_found
    [of "\<lparr>comments = [ex_comment ''c1'' ''p1'' ''hello''],
          commentCounts = [''p1'' \<mapsto> 2, ''p2'' \<mapsto> 5],
          comment_status = Succeeded, comment_error = None\<rparr>" "''c9''"
        "ex_comment ''c1'' ''p1'' ''hello''"]
    deleteComment_fulfilled_only_counts_found
    [of "\<lparr>comments = [ex_comment ''c1'' ''p1'' ''hello''],
          commentCounts = [''p1'' \<mapsto> 2, ''p2'' \<mapsto> 5],
          comment_status = Succeeded, comment_error = None\<rparr>" "''c1''"
        "ex_comment ''c1'' ''p1'' ''hello''"]
  by (simp add: ex_comment_def)



section \<open>Properties of the operations\<close>

text \<open>
  C6. When \<open>updateComment\<close> is called by a signed-in user with \<open>shouldRemoveImage\<close>
  set and a new file supplied as well, removal wins: the requests issued are the
  best-effort removal of the old blob and the update of the row with \<open>image_path\<close> null,
  and no upload. For a backend that answers an update with the updated row, the row that
  the operation is fulfilled with, and that replaces the cached entry with this id, has
  no image path, and so not the path of the new file.
\<close>

theorem updateComment_removal_takes_precedence:
  assumes "u_id u \<noteq> []"
    and "\<forall>i p row. comments_update be i p = Inr (Some row) \<longrightarrow>
           c_id row = i \<and> c_image_path row = cp_image_path p"
  shows "fst (updateComment be (Some u) now rnd isoNow ident content (Some f) old True) =
           remove_old old @
           [CommentsUpdate ident
              \<lparr>cp_content = content, cp_image_path = None, cp_updated_at = isoNow\<rparr>]
         \<and> (\<forall>path g. StorageUpload path g \<notin>
               set (fst (updateComment be (Some u) now rnd isoNow ident content (Some f) old True)))
         \<and> (comments_update be ident
               \<lparr>cp_content = content, cp_image_path = None, cp_updated_at = isoNow\<rparr> = Inr (Some row)
             \<longrightarrow>
               snd (updateComment be (Some u) now rnd isoNow ident content (Some f) old True) =
                 UpdateComment (Fulfilled (Some row))
               \<and> c_image_path row = None
               \<and> c_image_path row \<noteq> Some (comment_file_path u now rnd f)
               \<and> ((\<exists>x\<in>set (comments state). c_id x = ident) \<longrightarrow>
                   (\<exists>k<length (comments state).
                      c_id (comments state ! k) = ident
                      \<and> comments (commentReducer state
                           (snd (updateComment be (Some u) now rnd isoNow ident content
                                   (Some f) old True))) = (comments state)[k := row]
                      \<and> c_image_path (comments (commentReducer state
                           (snd (updateComment be (Some u) now rnd isoNow ident content
                                   (Some f) old True))) ! k) = None)))"
proof (intro conjI impI allI)
  let ?patch = "\<lparr>cp_content = content, cp_image_path = None, cp_updated_at = isoNow\<rparr>"
  let ?run = "updateComment be (Some u) now rnd isoNow ident content (Some f) old True"
  have run: "?run = updateComment_row be isoNow ident content (remove_old old) None"
    using assms(1) by (simp add: updateComment_def)
  show issued: "fst ?run = remove_old old @ [CommentsUpdate ident ?patch]"
    by (simp add: run updateComment_row_def Let_def split: sum.splits)
  show "StorageUpload path g \<notin> set (fst ?run)" for path g
    by (simp add: issued remove_old_no_upload)
  assume accepted: "comments_update be ident ?patch = Inr (Some row)"
  then show act: "snd ?run = UpdateComment (Fulfilled (Some row))"
    by (simp add: run updateComment_row_def Let_def)
  from assms(2) accepted have row: "c_id row = ident" "c_image_path row = None"
    by fastforce+
  show "c_image_path row = None" by (rule row(2))
  show "c_image_path row \<noteq> Some (comment_file_path u now rnd f)"
    by (simp add: row(2))
  assume "\<exists>x\<in>set (comments state). c_id x = ident"
  then have "\<exists>x\<in>set (comments state). c_id x = c_id row"
    by (simp add: row(1))
  from findIndex_present [of "comments state" "\<lambda>x. c_id x = c_id row", OF this]
  obtain k where k: "k < length (comments state)"
    "findIndex (\<lambda>x. c_id x = c_id row) (comments state) = int k"
    "c_id (comments state ! k) = c_id row"
    by blast
  from k(2) have "comments (commentReducer state (snd ?run)) = (comments state)[k := row]"
    by (simp add: act)
  with k(1,3) row
  show "\<exists>k<length (comments state).
          c_id (comments state ! k) = ident
          \<and> comments (commentReducer state (snd ?run)) = (comments state)[k := row]
          \<and> c_image_path (comments (commentReducer state (snd ?run)) ! k) = None"
    by auto
qed

text \<open>
  An instance, with the example backend and a cached comment that has an image.
\<close>

theorem updateComment_removal_takes_precedence_witness:
  "fst (updateComment ex_backend (Some ex_user) ''1700000000000'' ''k3x9'' ''2025-03-03T10:00:00.000Z''
          ''c1'' ''edited'' (Some \<lparr>file_name = ''cat.png''\<rparr>) (Some ''u1/old.png'') True) =
     [StorageRemove ''u1/old.png'',
      CommentsUpdate ''c1''
        \<lparr>cp_content = ''edited'', cp_image_path = None,
         cp_updated_at = ''2025-03-03T10:00:00.000Z''\<rparr>]
   \<and> c_image_path (ex_comment ''c1'' ''p1'' ''hello'') = Some ''u1/old.png''
   \<and> c_image_path (comments (commentReducer
        \<lparr>comments = [ex_comment ''c1'' ''p1'' ''hello''], commentCounts = [''p1'' \<mapsto> 1],
         comment_status = Succeeded, comment_error = None\<rparr>
        (snd (updateComment ex_backend (Some ex_user) ''1700000000000'' ''k3x9''
                ''2025-03-03T10:00:00.000Z'' ''c1'' ''edited''
                (Some \<lparr>file_name = ''cat.png''\<rparr>) (Some ''u1/old.png'') True))) ! 0) = None"
proof -
  have user: "u_id ex_user \<noteq> []"
    by (simp add: ex_user_def)
  have contract: "\<forall>i p row. comments_update ex_backend i p = Inr (Some row) \<longrightarrow>
      c_id row = i \<and> c_image_path row = cp_image_path p"
    by (auto simp: ex_backend_def)
  have accepted: "comments_update ex_backend ''c1''
      \<lparr>cp_content = ''edited'', cp_image_path = None,
       cp_updated_at = ''2025-03-03T10:00:00.000Z''\<rparr> =
      Inr (Some \<lparr>c_id = ''c1'', c_content = ''edited'', c_post_id = ''p1'', c_user_id = ''u1'',
         c_email = ''ann@example.org'', c_image_path = None,
         c_created_at = ''2025-01-01'', c_updated_at = ''2025-03-03T10:00:00.000Z''\<rparr>)"
    by (simp add: ex_backend_def)
  from updateComment_removal_takes_precedence [OF user contract,
      of "''1700000000000''" "''k3x9''" "''2025-03-03T10:00:00.000Z''" "''c1''" "''edited''"
         "\<lparr>file_name = ''cat.png''\<rparr>" "Some ''u1/old.png''"
         "\<lparr>c_id = ''c1'', c_content = ''edited'', c_post_id = ''p1'', c_user_id = ''u1'',
           c_email = ''ann@example.org'', c_image_path = None,
           c_created_at = ''2025-01-01'', c_updated_at = ''2025-03-03T10:00:00.000Z''\<rparr>"
         "\<lparr>comments = [ex_comment ''c1'' ''p1'' ''hello''], commentCounts = [''p1'' \<mapsto> 1],
           comment_status = Succeeded, comment_error = None\<rparr>"]
    accepted
  show ?thesis
    by (simp add: ex_comment_def findIndex_def Let_def)
qed

text \<open>
  C7. When a signed-in user creates a post or a comment with a file and the upload of
  the file fails, the upload is the only request issued, so no row is inserted; the
  operation is rejected with the message of the upload's error; and the cache is the same
  after the pending and the rejected action as before.
\<close>

theorem create_upload_failure_aborts:
  assumes "u_id u \<noteq> []"
  shows "(storage_upload be (blog_file_path u now f) f = Some message \<longrightarrow>
            createBlog be (Some u) now title content (Some f) =
              ([StorageUpload (blog_file_path u now f) f], CreateBlog (Rejected (Some message)))
            \<and> (\<forall>d. PostsInsert d \<notin>
                  set (fst (createBlog be (Some u) now title content (Some f))))
            \<and> foldl blogReducer bstate
                 [CreateBlog Pending, snd (createBlog be (Some u) now title content (Some f))] =
                bstate)
         \<and> (storage_upload be (comment_file_path u now rnd f) f = Some message \<longrightarrow>
            createComment be (Some u) now rnd postId content (Some f) =
              ([StorageUpload (comment_file_path u now rnd f) f],
               CreateComment (Rejected (Some message)))
            \<and> (\<forall>d. CommentsInsert d \<notin>
                  set (fst (createComment be (Some u) now rnd postId content (Some f))))
            \<and> foldl commentReducer cstate
                 [CreateComment Pending,
                  snd (createComment be (Some u) now rnd postId content (Some f))] = cstate)"
  using assms by (simp add: createBlog_def createComment_def)

text \<open>
  An instance, with the example backend, which refuses files named \<open>bad.png\<close>.
\<close>

theorem create_upload_failure_aborts_witness:
  "createBlog ex_backend (Some ex_user) ''1700000000000'' ''title'' ''text''
      (Some \<lparr>file_name = ''bad.png''\<rparr>) =
     ([StorageUpload ''u1/1700000000000-bad.png'' \<lparr>file_name = ''bad.png''\<rparr>],
      CreateBlog (Rejected (Some ''upload failed'')))
   \<and> createComment ex_backend (Some ex_user) ''1700000000000'' ''k3x9'' ''p1'' ''text''
      (Some \<lparr>file_name = ''bad.png''\<rparr>) =
     ([StorageUpload ''u1/1700000000000-k3x9.png'' \<lparr>file_name = ''bad.png''\<rparr>],
      CreateComment (Rejected (Some ''upload failed'')))"
proof -
  have user: "u_id ex_user \<noteq> []"
    by (simp add: ex_user_def)
  have blog_path: "blog_file_path ex_user ''1700000000000'' \<lparr>file_name = ''bad.png''\<rparr> =
      ''u1/1700000000000-bad.png''"
    by (simp add: blog_file_path_def ex_user_def)
  have comment_path:
    "comment_file_path ex_user ''1700000000000'' ''k3x9'' \<lparr>file_name = ''bad.png''\<rparr> =
      ''u1/1700000000000-k3x9.png''"
    by (simp add: comment_file_path_def file_ext_def ex_user_def)
  have refused: "storage_upload ex_backend path \<lparr>file_name = ''bad.png''\<rparr> =
      Some ''upload failed''" for path
    by (simp add: ex_backend_def)
  from create_upload_failure_aborts [OF user, of ex_backend "''1700000000000''"
      "\<lparr>file_name = ''bad.png''\<rparr>" "''upload failed''" "''title''" "''text''"
      blogInitialState "''k3x9''" "''p1''" commentInitialState]
  show ?thesis
    by (simp add: refused blog_path comment_path)
qed

section \<open>Failed mutations\<close>




end
